theory Spec2Isabelle
  imports Complex_Main "HOL-Library.Word"
begin

section \<open>The receiver sketch \<open>Final_car.ino\<close>\<close>

subsection \<open>Constants\<close>

text \<open>Pin numbers, as the \<open>#define\<close>s give them.\<close>

definition IN1 :: nat where "IN1 = 7"
definition IN2 :: nat where "IN2 = 8"
definition IN3 :: nat where "IN3 = 9"
definition IN4 :: nat where "IN4 = 10"
definition TRIGGER_PIN :: nat where "TRIGGER_PIN = 13"
definition ECHO_PIN :: nat where "ECHO_PIN = 12"
definition BUZZER_PIN :: nat where "BUZZER_PIN = 6"

abbreviation (input) HIGH :: bool where "HIGH \<equiv> True"
abbreviation (input) LOW :: bool where "LOW \<equiv> False"

text \<open>The command field of a decoded IR frame is a \<open>uint16_t\<close>.\<close>

definition IR_FORWARD :: "16 word" where "IR_FORWARD = 0x2200"
definition IR_BACKWARD :: "16 word" where "IR_BACKWARD = 0xC200"
definition IR_LEFT :: "16 word" where "IR_LEFT = 0xA800"
definition IR_RIGHT :: "16 word" where "IR_RIGHT = 0x6200"
definition IR_SMART_FWD :: "16 word" where "IR_SMART_FWD = 0x200"

definition OBSTACLE_THRESHOLD :: int where "OBSTACLE_THRESHOLD = 20"

text \<open>\<open>unsigned long\<close> is 32 bits wide; subtraction wraps and comparison is unsigned.\<close>

definition obstacleCheckInterval :: "32 word" where "obstacleCheckInterval = 300"
definition signalTimeout :: "32 word" where "signalTimeout = 200"

subsection \<open>State\<close>

text \<open>
  What the sketch writes to the serial port, one entry per call of \<open>Serial.print\<close> or
  \<open>Serial.println\<close>, in the order of the calls.
\<close>

datatype serial_out =
    Print string
  | Println string
  | PrintlnHex "16 word"
  | PrintInt int

text \<open>
  The global variables of the sketch, the level last written to each output pin, and
  the serial output so far.
\<close>

record car =
  isSmartForward :: bool
  isAvoiding :: bool
  lastObstacleCheck :: "32 word"
  lastIRSignalTime :: "32 word"
  pins :: "nat \<Rightarrow> bool"
  serial :: "serial_out list"

text \<open>
  What one pass of \<open>loop\<close> reads from outside: the result of \<open>IrReceiver.decode()\<close>
  (\<open>None\<close> when it returns false, otherwise the command of the decoded frame), the
  value of each of the four calls of \<open>millis()\<close> the pass can make, and the value
  \<open>pulseIn\<close> returns (0 when no echo arrives before its timeout).
\<close>

record env =
  decode :: "16 word option"
  millis_rx :: "32 word"
  millis_wd :: "32 word"
  millis_chk :: "32 word"
  millis_obs :: "32 word"
  pulse :: "32 word"

subsection \<open>Output primitives\<close>

definition digitalWrite :: "nat \<Rightarrow> bool \<Rightarrow> car \<Rightarrow> car" where
  "digitalWrite pin level s = s\<lparr>pins := (pins s)(pin := level)\<rparr>"

definition Serial_print :: "string \<Rightarrow> car \<Rightarrow> car" where
  "Serial_print msg s = s\<lparr>serial := serial s @ [Print msg]\<rparr>"

definition Serial_println :: "string \<Rightarrow> car \<Rightarrow> car" where
  "Serial_println msg s = s\<lparr>serial := serial s @ [Println msg]\<rparr>"

definition Serial_println_hex :: "16 word \<Rightarrow> car \<Rightarrow> car" where
  "Serial_println_hex c s = s\<lparr>serial := serial s @ [PrintlnHex c]\<rparr>"

definition Serial_print_int :: "int \<Rightarrow> car \<Rightarrow> car" where
  "Serial_print_int n s = s\<lparr>serial := serial s @ [PrintInt n]\<rparr>"

subsection \<open>Motor operations\<close>

definition moveForward :: "car \<Rightarrow> car" where
  "moveForward s =
     Serial_println ''Moving FORWARD''
       (digitalWrite IN4 HIGH (digitalWrite IN3 HIGH
         (digitalWrite IN2 LOW (digitalWrite IN1 LOW s))))"

definition moveBackward :: "car \<Rightarrow> car" where
  "moveBackward s =
     Serial_println ''Moving BACKWARD''
       (digitalWrite IN4 LOW (digitalWrite IN3 LOW
         (digitalWrite IN2 HIGH (digitalWrite IN1 HIGH s))))"

definition turnLeft :: "car \<Rightarrow> car" where
  "turnLeft s =
     Serial_println ''Turning LEFT''
       (digitalWrite IN4 LOW (digitalWrite IN3 HIGH
         (digitalWrite IN2 HIGH (digitalWrite IN1 LOW s))))"

definition turnRight :: "car \<Rightarrow> car" where
  "turnRight s =
     Serial_println ''Turning RIGHT''
       (digitalWrite IN4 HIGH (digitalWrite IN3 LOW
         (digitalWrite IN2 LOW (digitalWrite IN1 HIGH s))))"

definition stopCar :: "car \<Rightarrow> car" where
  "stopCar s =
     Serial_println ''STOPPED''
       (digitalWrite IN4 HIGH (digitalWrite IN3 HIGH
         (digitalWrite IN2 HIGH (digitalWrite IN1 HIGH s))))"

subsection \<open>Distance measurement\<close>

text \<open>Conversion of a floating-point value to an integer drops the fraction.\<close>

definition truncate :: "real \<Rightarrow> int" where
  "truncate x = (if 0 \<le> x then \<lfloor>x\<rfloor> else \<lceil>x\<rceil>)"

text \<open>
  \<open>getDistance\<close> pulses the trigger pin, stores the \<open>unsigned long\<close> that \<open>pulseIn\<close>
  returns in a \<open>long\<close>, and returns \<open>duration * 0.034 / 2\<close> as an \<open>int\<close>. The product
  is taken here in exact arithmetic; the sketch computes it in floating point, which
  gives the same result, 0, for a duration of 0, and the same integer wherever the exact
  value is not within rounding error of a whole number (15.3, 19.72 and 20.009 for the
  durations 900, 1160 and 1177 used in the examples below). The result is the value of
  the C \<open>int\<close>; the conversion is defined in C only when that value fits, which it does
  for every duration up to the one-second timeout of \<open>pulseIn\<close> (17000 cm).
\<close>

definition getDistance :: "env \<Rightarrow> car \<Rightarrow> int \<times> car" where
  "getDistance e s =
     (let s1 = digitalWrite TRIGGER_PIN LOW s;
          s2 = digitalWrite TRIGGER_PIN HIGH s1;
          s3 = digitalWrite TRIGGER_PIN LOW s2;
          duration = sint (pulse e)
      in (truncate (real_of_int duration * 0.034 / 2), s3))"

subsection \<open>Mode changes\<close>

definition toggleSmartMode :: "car \<Rightarrow> car" where
  "toggleSmartMode s =
     (let s1 = s\<lparr>isSmartForward := \<not> isSmartForward s\<rparr>
      in if isSmartForward s1
         then moveForward (Serial_println ''Smart Mode ON'' s1)
         else stopCar (digitalWrite BUZZER_PIN LOW (Serial_println ''Smart Mode OFF'' s1)))"

definition stopSmartMode :: "car \<Rightarrow> car" where
  "stopSmartMode s =
     (if isSmartForward s
      then digitalWrite BUZZER_PIN LOW
             (Serial_println ''Smart Mode OFF'' (s\<lparr>isSmartForward := False\<rparr>))
      else s)"

subsection \<open>Command handling\<close>

definition handleIRCommand :: "16 word \<Rightarrow> car \<Rightarrow> car" where
  "handleIRCommand command s =
     (let s1 = Serial_println_hex command (Serial_print ''Received Command: 0x'' s)
      in if command = IR_FORWARD then (if \<not> isSmartForward s1 then moveForward s1 else s1)
         else if command = IR_BACKWARD then moveBackward (stopSmartMode s1)
         else if command = IR_LEFT then turnLeft (stopSmartMode s1)
         else if command = IR_RIGHT then turnRight (stopSmartMode s1)
         else if command = IR_SMART_FWD then toggleSmartMode s1
         else s1)"

subsection \<open>The avoidance cycle\<close>

definition checkObstacle :: "env \<Rightarrow> car \<Rightarrow> car" where
  "checkObstacle e s =
     (let s1 = s\<lparr>lastObstacleCheck := millis_obs e\<rparr>;
          (distance, s2) = getDistance e s1;
          s3 = Serial_println '' cm'' (Serial_print_int distance (Serial_print ''Distance: '' s2))
      in if 0 < distance \<and> distance < OBSTACLE_THRESHOLD
         then
           (let s4 = (if \<not> isAvoiding s3
                      then (Serial_println ''Obstacle detected - Avoiding'' s3)\<lparr>isAvoiding := True\<rparr>
                      else s3)
            in turnRight (digitalWrite BUZZER_PIN HIGH s4))
         else
           (let s4 = (if isAvoiding s3
                      then (Serial_println ''Path clear - Resuming forward'' s3)\<lparr>isAvoiding := False\<rparr>
                      else s3)
            in moveForward (digitalWrite BUZZER_PIN LOW s4)))"

subsection \<open>Start-up and the main loop\<close>

text \<open>The state at power-on: the initialisers of the globals, every output low, nothing printed.\<close>

definition power_on :: car where
  "power_on = \<lparr>isSmartForward = False, isAvoiding = False, lastObstacleCheck = 0,
                lastIRSignalTime = 0, pins = (\<lambda>_. LOW), serial = []\<rparr>"

text \<open>The sketch's \<open>setup()\<close>; pin modes and the baud rate have no counterpart in the state.\<close>

definition setup_car :: "car \<Rightarrow> car" where
  "setup_car s = Serial_println ''Car Ready'' (digitalWrite BUZZER_PIN LOW (stopCar s))"

definition loop :: "env \<Rightarrow> car \<Rightarrow> car" where
  "loop e s =
     (let s1 = (case decode e of
                  Some command \<Rightarrow> handleIRCommand command (s\<lparr>lastIRSignalTime := millis_rx e\<rparr>)
                | None \<Rightarrow> s);
          s2 = (if \<not> isSmartForward s1 \<and> signalTimeout < millis_wd e - lastIRSignalTime s1
                then stopCar s1 else s1)
      in if isSmartForward s2
         then (if obstacleCheckInterval < millis_chk e - lastObstacleCheck s2
               then checkObstacle e s2 else s2)
         else s2)"

text \<open>The runtime calls \<open>loop\<close> again and again; \<open>run\<close> is a finite stretch of that.\<close>

fun run :: "env list \<Rightarrow> car \<Rightarrow> car" where
  "run [] s = s"
| "run (e # es) s = run es (loop e s)"

subsection \<open>Observations\<close>

text \<open>The levels on the four motor pins, and the five patterns the motor operations write.\<close>

definition motor :: "car \<Rightarrow> bool \<times> bool \<times> bool \<times> bool" where
  "motor s = (pins s IN1, pins s IN2, pins s IN3, pins s IN4)"

definition FORWARD :: "bool \<times> bool \<times> bool \<times> bool" where "FORWARD = (LOW, LOW, HIGH, HIGH)"
definition BACKWARD :: "bool \<times> bool \<times> bool \<times> bool" where "BACKWARD = (HIGH, HIGH, LOW, LOW)"
definition LEFT :: "bool \<times> bool \<times> bool \<times> bool" where "LEFT = (LOW, HIGH, HIGH, LOW)"
definition RIGHT :: "bool \<times> bool \<times> bool \<times> bool" where "RIGHT = (HIGH, LOW, LOW, HIGH)"
definition STOP :: "bool \<times> bool \<times> bool \<times> bool" where "STOP = (HIGH, HIGH, HIGH, HIGH)"

definition buzzer :: "car \<Rightarrow> bool" where
  "buzzer s = pins s BUZZER_PIN"

text \<open>The part of the serial output written since an earlier state.\<close>

definition printed_since :: "car \<Rightarrow> car \<Rightarrow> serial_out list" where
  "printed_since s s' = drop (length (serial s)) (serial s')"

text \<open>How often the avoidance cycle has run: it alone prints the distance label.\<close>

definition cycles :: "car \<Rightarrow> nat" where
  "cycles s = count_list (serial s) (Print ''Distance: '')"

text \<open>How often \<open>stopCar\<close> has been called: it alone prints this line.\<close>

definition stops :: "car \<Rightarrow> nat" where
  "stops s = count_list (serial s) (Println ''STOPPED'')"

text \<open>The case labels of the \<open>switch\<close> in \<open>handleIRCommand\<close>.\<close>

definition known_command :: "16 word \<Rightarrow> bool" where
  "known_command c \<longleftrightarrow> c \<in> {IR_FORWARD, IR_BACKWARD, IR_LEFT, IR_RIGHT, IR_SMART_FWD}"

text \<open>
  A pass of the loop that is over before the millisecond counter moves: every call of
  \<open>millis()\<close> returns \<open>t\<close>. Used for concrete examples.
\<close>

definition pass :: "16 word option \<Rightarrow> 32 word \<Rightarrow> 32 word \<Rightarrow> env" where
  "pass c t p = \<lparr>decode = c, millis_rx = t, millis_wd = t, millis_chk = t, millis_obs = t,
                 pulse = p\<rparr>"

text \<open>
  A stretch of passes in manual mode that keeps the watchdog quiet, given the value \<open>t\<close>
  of \<open>lastIRSignalTime\<close> it starts with: a pass that decodes nothing reads the
  watchdog's clock no more than \<open>signalTimeout\<close> after \<open>t\<close>; a pass that decodes a
  frame carries an unrecognised code, reads the watchdog's clock no more than
  \<open>signalTimeout\<close> after the reception was timed, and hands that time on as the new \<open>t\<close>.
\<close>

fun stream_within_timeout :: "env list \<Rightarrow> 32 word \<Rightarrow> bool" where
  "stream_within_timeout [] t = True"
| "stream_within_timeout (e # es) t =
     (case decode e of
        None \<Rightarrow> millis_wd e - t \<le> signalTimeout \<and> stream_within_timeout es t
      | Some c \<Rightarrow> \<not> known_command c \<and> millis_wd e - millis_rx e \<le> signalTimeout
                  \<and> stream_within_timeout es (millis_rx e))"

text \<open>The states the sketch can be in between two passes of the loop.\<close>

inductive reachable :: "car \<Rightarrow> bool" where
  start: "reachable (setup_car power_on)"
| step: "reachable s \<Longrightarrow> reachable (loop e s)"

section \<open>Basic facts\<close>

lemmas pin_defs = IN1_def IN2_def IN3_def IN4_def TRIGGER_PIN_def ECHO_PIN_def BUZZER_PIN_def

lemmas ir_defs = IR_FORWARD_def IR_BACKWARD_def IR_LEFT_def IR_RIGHT_def IR_SMART_FWD_def

lemmas prim_defs = digitalWrite_def Serial_print_def Serial_println_def Serial_println_hex_def Serial_print_int_def
lemmas move_defs = moveForward_def moveBackward_def turnLeft_def turnRight_def stopCar_def
lemmas obs_defs = motor_def buzzer_def FORWARD_def BACKWARD_def LEFT_def RIGHT_def STOP_def

lemma stopCar_fields [simp]:
  "isSmartForward (stopCar s) = isSmartForward s"
  "isAvoiding (stopCar s) = isAvoiding s"
  "lastObstacleCheck (stopCar s) = lastObstacleCheck s"
  "lastIRSignalTime (stopCar s) = lastIRSignalTime s"
  "motor (stopCar s) = STOP"
  "buzzer (stopCar s) = buzzer s"
  "serial (stopCar s) = serial s @ [Println ''STOPPED'']"
  by (simp_all add: stopCar_def prim_defs obs_defs pin_defs)

lemma moveForward_fields [simp]:
  "isSmartForward (moveForward s) = isSmartForward s"
  "isAvoiding (moveForward s) = isAvoiding s"
  "lastObstacleCheck (moveForward s) = lastObstacleCheck s"
  "lastIRSignalTime (moveForward s) = lastIRSignalTime s"
  "motor (moveForward s) = FORWARD"
  "buzzer (moveForward s) = buzzer s"
  "serial (moveForward s) = serial s @ [Println ''Moving FORWARD'']"
  by (simp_all add: moveForward_def prim_defs obs_defs pin_defs)

lemma moveBackward_fields [simp]:
  "isSmartForward (moveBackward s) = isSmartForward s"
  "isAvoiding (moveBackward s) = isAvoiding s"
  "lastObstacleCheck (moveBackward s) = lastObstacleCheck s"
  "lastIRSignalTime (moveBackward s) = lastIRSignalTime s"
  "motor (moveBackward s) = BACKWARD"
  "buzzer (moveBackward s) = buzzer s"
  "serial (moveBackward s) = serial s @ [Println ''Moving BACKWARD'']"
  by (simp_all add: moveBackward_def prim_defs obs_defs pin_defs)

lemma turnLeft_fields [simp]:
  "isSmartForward (turnLeft s) = isSmartForward s"
  "isAvoiding (turnLeft s) = isAvoiding s"
  "lastObstacleCheck (turnLeft s) = lastObstacleCheck s"
  "lastIRSignalTime (turnLeft s) = lastIRSignalTime s"
  "motor (turnLeft s) = LEFT"
  "buzzer (turnLeft s) = buzzer s"
  "serial (turnLeft s) = serial s @ [Println ''Turning LEFT'']"
  by (simp_all add: turnLeft_def prim_defs obs_defs pin_defs)

lemma turnRight_fields [simp]:
  "isSmartForward (turnRight s) = isSmartForward s"
  "isAvoiding (turnRight s) = isAvoiding s"
  "lastObstacleCheck (turnRight s) = lastObstacleCheck s"
  "lastIRSignalTime (turnRight s) = lastIRSignalTime s"
  "motor (turnRight s) = RIGHT"
  "buzzer (turnRight s) = buzzer s"
  "serial (turnRight s) = serial s @ [Println ''Turning RIGHT'']"
  by (simp_all add: turnRight_def prim_defs obs_defs pin_defs)

lemma buzzerWrite_fields [simp]:
  "isSmartForward (digitalWrite BUZZER_PIN v s) = isSmartForward s"
  "isAvoiding (digitalWrite BUZZER_PIN v s) = isAvoiding s"
  "lastObstacleCheck (digitalWrite BUZZER_PIN v s) = lastObstacleCheck s"
  "lastIRSignalTime (digitalWrite BUZZER_PIN v s) = lastIRSignalTime s"
  "motor (digitalWrite BUZZER_PIN v s) = motor s"
  "buzzer (digitalWrite BUZZER_PIN v s) = v"
  "serial (digitalWrite BUZZER_PIN v s) = serial s"
  by (simp_all add: prim_defs obs_defs pin_defs)

lemma triggerWrite_fields [simp]:
  "isSmartForward (digitalWrite TRIGGER_PIN v s) = isSmartForward s"
  "isAvoiding (digitalWrite TRIGGER_PIN v s) = isAvoiding s"
  "lastObstacleCheck (digitalWrite TRIGGER_PIN v s) = lastObstacleCheck s"
  "lastIRSignalTime (digitalWrite TRIGGER_PIN v s) = lastIRSignalTime s"
  "motor (digitalWrite TRIGGER_PIN v s) = motor s"
  "buzzer (digitalWrite TRIGGER_PIN v s) = buzzer s"
  "serial (digitalWrite TRIGGER_PIN v s) = serial s"
  by (simp_all add: prim_defs obs_defs pin_defs)

lemma Serial_fields [simp]:
  "isSmartForward (Serial_print m s) = isSmartForward s"
  "isAvoiding (Serial_print m s) = isAvoiding s"
  "lastObstacleCheck (Serial_print m s) = lastObstacleCheck s"
  "lastIRSignalTime (Serial_print m s) = lastIRSignalTime s"
  "motor (Serial_print m s) = motor s"
  "buzzer (Serial_print m s) = buzzer s"
  "serial (Serial_print m s) = serial s @ [Print m]"
  "isSmartForward (Serial_println m s) = isSmartForward s"
  "isAvoiding (Serial_println m s) = isAvoiding s"
  "lastObstacleCheck (Serial_println m s) = lastObstacleCheck s"
  "lastIRSignalTime (Serial_println m s) = lastIRSignalTime s"
  "motor (Serial_println m s) = motor s"
  "buzzer (Serial_println m s) = buzzer s"
  "serial (Serial_println m s) = serial s @ [Println m]"
  "isSmartForward (Serial_println_hex c s) = isSmartForward s"
  "isAvoiding (Serial_println_hex c s) = isAvoiding s"
  "lastObstacleCheck (Serial_println_hex c s) = lastObstacleCheck s"
  "lastIRSignalTime (Serial_println_hex c s) = lastIRSignalTime s"
  "motor (Serial_println_hex c s) = motor s"
  "buzzer (Serial_println_hex c s) = buzzer s"
  "serial (Serial_println_hex c s) = serial s @ [PrintlnHex c]"
  "isSmartForward (Serial_print_int n s) = isSmartForward s"
  "isAvoiding (Serial_print_int n s) = isAvoiding s"
  "lastObstacleCheck (Serial_print_int n s) = lastObstacleCheck s"
  "lastIRSignalTime (Serial_print_int n s) = lastIRSignalTime s"
  "motor (Serial_print_int n s) = motor s"
  "buzzer (Serial_print_int n s) = buzzer s"
  "serial (Serial_print_int n s) = serial s @ [PrintInt n]"
  by (simp_all add: prim_defs obs_defs)

lemma update_fields [simp]:
  "motor (s\<lparr>isSmartForward := b\<rparr>) = motor s"
  "buzzer (s\<lparr>isSmartForward := b\<rparr>) = buzzer s"
  "motor (s\<lparr>isAvoiding := b\<rparr>) = motor s"
  "buzzer (s\<lparr>isAvoiding := b\<rparr>) = buzzer s"
  "motor (s\<lparr>lastObstacleCheck := t\<rparr>) = motor s"
  "buzzer (s\<lparr>lastObstacleCheck := t\<rparr>) = buzzer s"
  "motor (s\<lparr>lastIRSignalTime := t\<rparr>) = motor s"
  "buzzer (s\<lparr>lastIRSignalTime := t\<rparr>) = buzzer s"
  by (simp_all add: obs_defs)

lemma getDistance_snd_fields [simp]:
  "isSmartForward (snd (getDistance e s)) = isSmartForward s"
  "isAvoiding (snd (getDistance e s)) = isAvoiding s"
  "lastObstacleCheck (snd (getDistance e s)) = lastObstacleCheck s"
  "lastIRSignalTime (snd (getDistance e s)) = lastIRSignalTime s"
  "motor (snd (getDistance e s)) = motor s"
  "buzzer (snd (getDistance e s)) = buzzer s"
  "serial (snd (getDistance e s)) = serial s"
  by (simp_all add: getDistance_def Let_def)

lemma getDistance_timeout: "pulse e = 0 \<Longrightarrow> fst (getDistance e s) = 0"
  by (simp add: getDistance_def truncate_def Let_def)

lemma stopSmartMode_fields [simp]:
  "isSmartForward (stopSmartMode s) = False"
  "isAvoiding (stopSmartMode s) = isAvoiding s"
  "lastObstacleCheck (stopSmartMode s) = lastObstacleCheck s"
  "lastIRSignalTime (stopSmartMode s) = lastIRSignalTime s"
  "motor (stopSmartMode s) = motor s"
  "buzzer (stopSmartMode s) = (\<not> isSmartForward s \<and> buzzer s)"
  "serial (stopSmartMode s) = serial s @ (if isSmartForward s then [Println ''Smart Mode OFF''] else [])"
  by (simp_all add: stopSmartMode_def)

lemma toggleSmartMode_fields [simp]:
  "isSmartForward (toggleSmartMode s) = (\<not> isSmartForward s)"
  "isAvoiding (toggleSmartMode s) = isAvoiding s"
  "lastObstacleCheck (toggleSmartMode s) = lastObstacleCheck s"
  "lastIRSignalTime (toggleSmartMode s) = lastIRSignalTime s"
  "motor (toggleSmartMode s) = (if isSmartForward s then STOP else FORWARD)"
  "buzzer (toggleSmartMode s) = (\<not> isSmartForward s \<and> buzzer s)"
  "serial (toggleSmartMode s) = serial s @
     (if isSmartForward s then [Println ''Smart Mode OFF'', Println ''STOPPED'']
      else [Println ''Smart Mode ON'', Println ''Moving FORWARD''])"
  by (simp_all add: toggleSmartMode_def Let_def)

lemma handle_toggle: "handleIRCommand IR_SMART_FWD s =
  toggleSmartMode (Serial_println_hex IR_SMART_FWD (Serial_print ''Received Command: 0x'' s))"
  by (simp add: handleIRCommand_def ir_defs)

lemma handle_backward: "handleIRCommand IR_BACKWARD s =
  moveBackward (stopSmartMode (Serial_println_hex IR_BACKWARD (Serial_print ''Received Command: 0x'' s)))"
  by (simp add: handleIRCommand_def ir_defs)

lemma handle_left: "handleIRCommand IR_LEFT s =
  turnLeft (stopSmartMode (Serial_println_hex IR_LEFT (Serial_print ''Received Command: 0x'' s)))"
  by (simp add: handleIRCommand_def ir_defs)

lemma handle_right: "handleIRCommand IR_RIGHT s =
  turnRight (stopSmartMode (Serial_println_hex IR_RIGHT (Serial_print ''Received Command: 0x'' s)))"
  by (simp add: handleIRCommand_def ir_defs)

lemma handle_forward: "handleIRCommand IR_FORWARD s =
  (let s1 = Serial_println_hex IR_FORWARD (Serial_print ''Received Command: 0x'' s)
   in if isSmartForward s then s1 else moveForward s1)"
  by (simp add: handleIRCommand_def ir_defs Let_def)

lemma handle_unknown:
  "\<not> known_command c \<Longrightarrow>
   handleIRCommand c s = Serial_println_hex c (Serial_print ''Received Command: 0x'' s)"
  by (simp add: handleIRCommand_def known_command_def)

lemma getDistance_fst: "fst (getDistance e s) = truncate (real_of_int (sint (pulse e)) * 0.034 / 2)"
  by (simp add: getDistance_def Let_def)

lemma getDistance_fst_state: "fst (getDistance e s) = fst (getDistance e s')"
  by (simp add: getDistance_fst)

lemma checkObstacle_obstacle:
  assumes "0 < fst (getDistance e s)" and "fst (getDistance e s) < OBSTACLE_THRESHOLD"
  shows "isSmartForward (checkObstacle e s) = isSmartForward s"
    and "isAvoiding (checkObstacle e s)"
    and "lastObstacleCheck (checkObstacle e s) = millis_obs e"
    and "lastIRSignalTime (checkObstacle e s) = lastIRSignalTime s"
    and "motor (checkObstacle e s) = RIGHT"
    and "buzzer (checkObstacle e s)"
    and "serial (checkObstacle e s) =
           serial s @ [Print ''Distance: '', PrintInt (fst (getDistance e s)), Println '' cm'']
             @ (if isAvoiding s then [] else [Println ''Obstacle detected - Avoiding''])
             @ [Println ''Turning RIGHT'']"
  using assms getDistance_fst_state [of e "s\<lparr>lastObstacleCheck := millis_obs e\<rparr>" s]
  by (simp_all add: checkObstacle_def Let_def case_prod_beta)

lemma checkObstacle_clear:
  assumes "\<not> (0 < fst (getDistance e s) \<and> fst (getDistance e s) < OBSTACLE_THRESHOLD)"
  shows "isSmartForward (checkObstacle e s) = isSmartForward s"
    and "\<not> isAvoiding (checkObstacle e s)"
    and "lastObstacleCheck (checkObstacle e s) = millis_obs e"
    and "lastIRSignalTime (checkObstacle e s) = lastIRSignalTime s"
    and "motor (checkObstacle e s) = FORWARD"
    and "\<not> buzzer (checkObstacle e s)"
    and "serial (checkObstacle e s) =
           serial s @ [Print ''Distance: '', PrintInt (fst (getDistance e s)), Println '' cm'']
             @ (if isAvoiding s then [Println ''Path clear - Resuming forward''] else [])
             @ [Println ''Moving FORWARD'']"
  using assms getDistance_fst_state [of e "s\<lparr>lastObstacleCheck := millis_obs e\<rparr>" s]
  by (auto simp add: checkObstacle_def Let_def case_prod_beta)

lemma handleIRCommand_times [simp]:
  "lastObstacleCheck (handleIRCommand c s) = lastObstacleCheck s"
  "lastIRSignalTime (handleIRCommand c s) = lastIRSignalTime s"
  "isAvoiding (handleIRCommand c s) = isAvoiding s"
  by (simp_all add: handleIRCommand_def Let_def)

lemma update_counts [simp]:
  "cycles (s\<lparr>lastIRSignalTime := t\<rparr>) = cycles s"
  "stops (s\<lparr>lastIRSignalTime := t\<rparr>) = stops s"
  by (simp_all add: cycles_def stops_def)

lemma handleIRCommand_cycles [simp]: "cycles (handleIRCommand c s) = cycles s"
  by (simp add: handleIRCommand_def Let_def cycles_def)

lemma stopCar_cycles [simp]: "cycles (stopCar s) = cycles s"
  by (simp add: cycles_def)

lemma checkObstacle_cycles [simp]: "cycles (checkObstacle e s) = Suc (cycles s)"
  by (cases "0 < fst (getDistance e s) \<and> fst (getDistance e s) < OBSTACLE_THRESHOLD")
     (simp_all add: checkObstacle_obstacle checkObstacle_clear cycles_def)

lemma checkObstacle_mode [simp]: "isSmartForward (checkObstacle e s) = isSmartForward s"
  by (cases "0 < fst (getDistance e s) \<and> fst (getDistance e s) < OBSTACLE_THRESHOLD")
     (simp_all add: checkObstacle_obstacle checkObstacle_clear)

lemma checkObstacle_time [simp]: "lastObstacleCheck (checkObstacle e s) = millis_obs e"
  by (cases "0 < fst (getDistance e s) \<and> fst (getDistance e s) < OBSTACLE_THRESHOLD")
     (simp_all add: checkObstacle_obstacle checkObstacle_clear)

lemma checkObstacle_rx_time [simp]: "lastIRSignalTime (checkObstacle e s) = lastIRSignalTime s"
  by (cases "0 < fst (getDistance e s) \<and> fst (getDistance e s) < OBSTACLE_THRESHOLD")
     (simp_all add: checkObstacle_obstacle checkObstacle_clear)

lemma stops_prints [simp]:
  "stops (Serial_println_hex c s) = stops s"
  "stops (Serial_print ''Received Command: 0x'' s) = stops s"
  by (simp_all add: stops_def)

lemma pass_fields [simp]:
  "decode (pass c t p) = c"
  "millis_rx (pass c t p) = t"
  "millis_wd (pass c t p) = t"
  "millis_chk (pass c t p) = t"
  "millis_obs (pass c t p) = t"
  "pulse (pass c t p) = p"
  by (simp_all add: pass_def)

lemma run_append: "run (xs @ ys) s = run ys (run xs s)"
  by (induction xs arbitrary: s) simp_all

lemma reachable_run: "reachable s \<Longrightarrow> reachable (run es s)"
  by (induction es arbitrary: s) (simp_all add: reachable.step)

lemma setup_fields [simp]:
  "isSmartForward (setup_car power_on) = False"
  "isAvoiding (setup_car power_on) = False"
  "lastObstacleCheck (setup_car power_on) = 0"
  "lastIRSignalTime (setup_car power_on) = 0"
  "motor (setup_car power_on) = STOP"
  "buzzer (setup_car power_on) = False"
  "serial (setup_car power_on) = [Println ''STOPPED'', Println ''Car Ready'']"
  by (simp_all add: setup_car_def power_on_def)

lemma loop_silent_smart:
  "isSmartForward s \<Longrightarrow> decode e = None \<Longrightarrow>
   loop e s = (if obstacleCheckInterval < millis_chk e - lastObstacleCheck s
               then checkObstacle e s else s)"
  by (simp add: loop_def)

lemma loop_mode:
  "isSmartForward (loop e s) =
     (case decode e of None \<Rightarrow> isSmartForward s
      | Some c \<Rightarrow> isSmartForward (handleIRCommand c (s\<lparr>lastIRSignalTime := millis_rx e\<rparr>)))"
  by (cases "decode e") (simp_all add: loop_def Let_def)

lemma run_silent_mode:
  "\<forall>e\<in>set es. decode e = None \<Longrightarrow> isSmartForward (run es s) = isSmartForward s"
  by (induction es arbitrary: s) (simp_all add: loop_mode)

section \<open>The manual-silence watchdog\<close>

lemma loop_silent_manual:
  "\<not> isSmartForward s \<Longrightarrow> decode e = None \<Longrightarrow>
   loop e s = (if signalTimeout < millis_wd e - lastIRSignalTime s then stopCar s else s)"
  by (simp add: loop_def)

lemma run_silent_manual_mode:
  "\<not> isSmartForward s \<Longrightarrow> \<forall>e\<in>set es. decode e = None \<Longrightarrow> \<not> isSmartForward (run es s)"
  by (induction es arbitrary: s) (simp_all add: loop_silent_manual)

lemma run_silent_manual_stays_stopped:
  "\<not> isSmartForward s \<Longrightarrow> motor s = STOP \<Longrightarrow> \<forall>e\<in>set es. decode e = None \<Longrightarrow>
   motor (run es s) = STOP"
  by (induction es arbitrary: s) (simp_all add: loop_silent_manual)

lemma run_watchdog:
  "\<not> isSmartForward s \<Longrightarrow>
   \<forall>e\<in>set es. decode e = None \<and> signalTimeout < millis_wd e - lastIRSignalTime s \<Longrightarrow>
   run es s = (stopCar ^^ length es) s"
proof (induction es arbitrary: s)
  case Nil
  show ?case by simp
next
  case (Cons e es)
  have "loop e s = stopCar s"
    using Cons.prems by (simp add: loop_silent_manual)
  moreover have "run es (stopCar s) = (stopCar ^^ length es) (stopCar s)"
    using Cons.prems by (intro Cons.IH) simp_all
  ultimately show ?case by (simp add: funpow_swap1)
qed

text \<open>
  C1. Take any stretch of passes of the loop that starts in manual mode and in which no
  frame is decoded while the watchdog's clock reading is more than 200 ms past
  \<open>lastIRSignalTime\<close> (the difference as the sketch computes it, in unsigned 32-bit
  arithmetic). Then every pass does exactly one thing, a call of \<open>stopCar\<close>; the motor
  pins show the stop pattern afterwards, the mode is still manual, and the pins keep the
  stop pattern over every further stretch of passes without a decoded frame, whatever the
  clock reads there.
\<close>

theorem watchdog_stops_car:
  assumes "\<not> isSmartForward s" and "es \<noteq> []"
    and "\<forall>e\<in>set es. decode e = None \<and> signalTimeout < millis_wd e - lastIRSignalTime s"
  shows "run es s = (stopCar ^^ length es) s
       \<and> motor (run es s) = STOP
       \<and> \<not> isSmartForward (run es s)
       \<and> (\<forall>es'. (\<forall>e\<in>set es'. decode e = None) \<longrightarrow> motor (run es' (run es s)) = STOP)"
proof -
  have r: "run es s = (stopCar ^^ length es) s"
    using assms by (simp add: run_watchdog)
  obtain n where n: "length es = Suc n"
    using assms(2) by (cases es) simp_all
  have m: "motor (run es s) = STOP"
    by (simp add: r n)
  have mode: "\<not> isSmartForward (run es s)"
    using assms by (simp add: run_silent_manual_mode)
  show ?thesis
    using r m mode by (simp add: run_silent_manual_stays_stopped)
qed

theorem watchdog_stops_car_witness:
  "\<not> isSmartForward (loop (pass (Some IR_FORWARD) 1000 0) (setup_car power_on))
 \<and> motor (loop (pass (Some IR_FORWARD) 1000 0) (setup_car power_on)) = FORWARD
 \<and> [pass None 1201 0, pass None 1250 0] \<noteq> []
 \<and> decode (pass None 1201 0) = None
 \<and> signalTimeout < millis_wd (pass None 1201 0)
       - lastIRSignalTime (loop (pass (Some IR_FORWARD) 1000 0) (setup_car power_on))
 \<and> decode (pass None 1250 0) = None
 \<and> signalTimeout < millis_wd (pass None 1250 0)
       - lastIRSignalTime (loop (pass (Some IR_FORWARD) 1000 0) (setup_car power_on))
 \<and> motor (run [pass None 1201 0, pass None 1250 0]
       (loop (pass (Some IR_FORWARD) 1000 0) (setup_car power_on))) = STOP
 \<and> decode (pass None 7 0) = None
 \<and> motor (run [pass None 7 0] (run [pass None 1201 0, pass None 1250 0]
       (loop (pass (Some IR_FORWARD) 1000 0) (setup_car power_on)))) = STOP"
proof -
  let ?s = "loop (pass (Some IR_FORWARD) 1000 0) (setup_car power_on)"
  let ?es = "[pass None 1201 0, pass None 1250 0]"
  have s: "\<not> isSmartForward ?s" "motor ?s = FORWARD" "lastIRSignalTime ?s = 1000"
    by (simp_all add: loop_def Let_def handle_forward signalTimeout_def)
  have h: "\<forall>e\<in>set ?es. decode e = None \<and> signalTimeout < millis_wd e - lastIRSignalTime ?s"
    by (simp add: s signalTimeout_def)
  have q: "\<forall>e\<in>set [pass None 7 0]. decode e = None"
    by simp
  from watchdog_stops_car [OF s(1) _ h] q have
    "motor (run ?es ?s) = STOP \<and> motor (run [pass None 7 0] (run ?es ?s)) = STOP"
    by blast
  with s h show ?thesis
    by (simp add: signalTimeout_def)
qed

section \<open>Command handling\<close>

lemma checkObstacle_outcome:
  "isAvoiding (checkObstacle e s) =
     (0 < fst (getDistance e s) \<and> fst (getDistance e s) < OBSTACLE_THRESHOLD)"
  "buzzer (checkObstacle e s) =
     (0 < fst (getDistance e s) \<and> fst (getDistance e s) < OBSTACLE_THRESHOLD)"
  "motor (checkObstacle e s) =
     (if 0 < fst (getDistance e s) \<and> fst (getDistance e s) < OBSTACLE_THRESHOLD
      then RIGHT else FORWARD)"
proof -
  show "isAvoiding (checkObstacle e s) =
     (0 < fst (getDistance e s) \<and> fst (getDistance e s) < OBSTACLE_THRESHOLD)"
    using checkObstacle_obstacle(2) [of e s] checkObstacle_clear(2) [of e s] by blast
  show "buzzer (checkObstacle e s) =
     (0 < fst (getDistance e s) \<and> fst (getDistance e s) < OBSTACLE_THRESHOLD)"
    using checkObstacle_obstacle(6) [of e s] checkObstacle_clear(6) [of e s] by blast
  show "motor (checkObstacle e s) =
     (if 0 < fst (getDistance e s) \<and> fst (getDistance e s) < OBSTACLE_THRESHOLD
      then RIGHT else FORWARD)"
    using checkObstacle_obstacle(5) [of e s] checkObstacle_clear(5) [of e s]
    by (simp split: if_splits)
qed

lemma distance_examples:
  "fst (getDistance (pass c t 0) s) = 0"
  "fst (getDistance (pass c t 30) s) = 0"
  "fst (getDistance (pass c t 900) s) = 15"
  "fst (getDistance (pass c t 1160) s) = 19"
  "fst (getDistance (pass c t 1177) s) = 20"
  by (simp_all add: getDistance_fst truncate_def)

text \<open>
  C2, as stated, fails: switch smart mode on, let one avoidance cycle see an obstacle at
  15 cm, and leave smart mode with a backward command. The car is then in manual mode
  with \<open>isAvoiding\<close> still set, and the next toggle enters smart mode without
  clearing it.
\<close>

theorem toggle_keeps_avoidance_flag_counterexample:
  "reachable (run [pass (Some IR_SMART_FWD) 0 0, pass None 400 900,
                   pass (Some IR_BACKWARD) 500 0] (setup_car power_on))
 \<and> \<not> isSmartForward (run [pass (Some IR_SMART_FWD) 0 0, pass None 400 900,
                   pass (Some IR_BACKWARD) 500 0] (setup_car power_on))
 \<and> isSmartForward (handleIRCommand IR_SMART_FWD
       (run [pass (Some IR_SMART_FWD) 0 0, pass None 400 900,
             pass (Some IR_BACKWARD) 500 0] (setup_car power_on)))
 \<and> isAvoiding (handleIRCommand IR_SMART_FWD
       (run [pass (Some IR_SMART_FWD) 0 0, pass None 400 900,
             pass (Some IR_BACKWARD) 500 0] (setup_car power_on)))"
proof -
  let ?s1 = "loop (pass (Some IR_SMART_FWD) 0 0) (setup_car power_on)"
  let ?s2 = "loop (pass None 400 900) ?s1"
  let ?s3 = "loop (pass (Some IR_BACKWARD) 500 0) ?s2"
  have s1: "isSmartForward ?s1" "lastObstacleCheck ?s1 = 0"
    by (simp_all add: loop_def Let_def handle_toggle obstacleCheckInterval_def)
  have "?s2 = checkObstacle (pass None 400 900) ?s1"
    using s1 by (simp add: loop_silent_smart obstacleCheckInterval_def)
  then have s2: "isSmartForward ?s2" "isAvoiding ?s2"
    using s1 by (simp_all add: checkObstacle_outcome distance_examples OBSTACLE_THRESHOLD_def)
  have s3: "\<not> isSmartForward ?s3" "isAvoiding ?s3"
    using s2 by (simp_all add: loop_def Let_def handle_backward)
  have "reachable ?s3"
    by (intro reachable.step reachable.start)
  with s3 show ?thesis
    by (simp add: handle_toggle)
qed

text \<open>
  C2, amended. When the toggle command is handled in manual mode, the car enters smart
  mode and the motor pins are set to the forward pattern; \<open>isAvoiding\<close> and the buzzer
  pin are left as they were.
\<close>

theorem toggle_from_manual:
  assumes "\<not> isSmartForward s"
  shows "isSmartForward (handleIRCommand IR_SMART_FWD s)
       \<and> motor (handleIRCommand IR_SMART_FWD s) = FORWARD
       \<and> isAvoiding (handleIRCommand IR_SMART_FWD s) = isAvoiding s
       \<and> buzzer (handleIRCommand IR_SMART_FWD s) = buzzer s"
  using assms by (simp add: handle_toggle)

theorem toggle_from_manual_witness:
  "\<not> isSmartForward (setup_car power_on)
 \<and> isSmartForward (handleIRCommand IR_SMART_FWD (setup_car power_on))
 \<and> motor (handleIRCommand IR_SMART_FWD (setup_car power_on)) = FORWARD
 \<and> \<not> isAvoiding (handleIRCommand IR_SMART_FWD (setup_car power_on))
 \<and> \<not> buzzer (handleIRCommand IR_SMART_FWD (setup_car power_on))"
  using toggle_from_manual [of "setup_car power_on"] by simp

lemma loop_override:
  assumes "decode e = Some c" and "c \<in> {IR_BACKWARD, IR_LEFT, IR_RIGHT}"
    and "millis_wd e - millis_rx e \<le> signalTimeout"
  shows "loop e s = handleIRCommand c (s\<lparr>lastIRSignalTime := millis_rx e\<rparr>)"
proof -
  have "\<not> isSmartForward (handleIRCommand c (s\<lparr>lastIRSignalTime := millis_rx e\<rparr>))"
    using assms(2) by (auto simp add: handle_backward handle_left handle_right)
  then show ?thesis
    using assms(1,3) by (simp add: loop_def Let_def not_less [symmetric])
qed

text \<open>
  C3. In smart mode, whatever \<open>isAvoiding\<close> is, handling a backward, left or right
  command leaves the car in manual mode with the buzzer pin low and the motor pins in
  the backward, left or right pattern. A pass of the loop that decodes such a command
  does nothing beyond recording the time and handling it, as long as the watchdog reads
  the clock no more than 200 ms after the reception was timed.
\<close>

theorem manual_override:
  assumes "isSmartForward s"
  shows "(\<not> isSmartForward (handleIRCommand IR_BACKWARD s)
           \<and> \<not> buzzer (handleIRCommand IR_BACKWARD s)
           \<and> motor (handleIRCommand IR_BACKWARD s) = BACKWARD)
       \<and> (\<not> isSmartForward (handleIRCommand IR_LEFT s)
           \<and> \<not> buzzer (handleIRCommand IR_LEFT s)
           \<and> motor (handleIRCommand IR_LEFT s) = LEFT)
       \<and> (\<not> isSmartForward (handleIRCommand IR_RIGHT s)
           \<and> \<not> buzzer (handleIRCommand IR_RIGHT s)
           \<and> motor (handleIRCommand IR_RIGHT s) = RIGHT)
       \<and> (decode e = Some c \<and> c \<in> {IR_BACKWARD, IR_LEFT, IR_RIGHT}
            \<and> millis_wd e - millis_rx e \<le> signalTimeout \<longrightarrow>
          loop e s = handleIRCommand c (s\<lparr>lastIRSignalTime := millis_rx e\<rparr>))"
  using assms loop_override [of e c s]
  by (simp add: handle_backward handle_left handle_right)

theorem manual_override_witness:
  "isSmartForward (loop (pass None 400 900) (loop (pass (Some IR_SMART_FWD) 0 0) (setup_car power_on)))
 \<and> isAvoiding (loop (pass None 400 900) (loop (pass (Some IR_SMART_FWD) 0 0) (setup_car power_on)))
 \<and> buzzer (loop (pass None 400 900) (loop (pass (Some IR_SMART_FWD) 0 0) (setup_car power_on)))
 \<and> decode (pass (Some IR_BACKWARD) 500 0) = Some IR_BACKWARD
 \<and> millis_wd (pass (Some IR_BACKWARD) 500 0) - millis_rx (pass (Some IR_BACKWARD) 500 0)
      \<le> signalTimeout
 \<and> \<not> isSmartForward (loop (pass (Some IR_BACKWARD) 500 0)
       (loop (pass None 400 900) (loop (pass (Some IR_SMART_FWD) 0 0) (setup_car power_on))))
 \<and> \<not> buzzer (loop (pass (Some IR_BACKWARD) 500 0)
       (loop (pass None 400 900) (loop (pass (Some IR_SMART_FWD) 0 0) (setup_car power_on))))
 \<and> motor (loop (pass (Some IR_BACKWARD) 500 0)
       (loop (pass None 400 900) (loop (pass (Some IR_SMART_FWD) 0 0) (setup_car power_on))))
      = BACKWARD"
proof -
  let ?s1 = "loop (pass (Some IR_SMART_FWD) 0 0) (setup_car power_on)"
  let ?s2 = "loop (pass None 400 900) ?s1"
  let ?e = "pass (Some IR_BACKWARD) 500 0"
  have s1: "isSmartForward ?s1" "lastObstacleCheck ?s1 = 0"
    by (simp_all add: loop_def Let_def handle_toggle obstacleCheckInterval_def)
  have "?s2 = checkObstacle (pass None 400 900) ?s1"
    using s1 by (simp add: loop_silent_smart obstacleCheckInterval_def)
  then have s2: "isSmartForward ?s2" "isAvoiding ?s2" "buzzer ?s2"
    using s1 by (simp_all add: checkObstacle_outcome distance_examples OBSTACLE_THRESHOLD_def)
  have e: "decode ?e = Some IR_BACKWARD" "millis_wd ?e - millis_rx ?e \<le> signalTimeout"
    by simp_all
  have "loop ?e ?s2 = handleIRCommand IR_BACKWARD (?s2\<lparr>lastIRSignalTime := millis_rx ?e\<rparr>)"
    using manual_override [OF s2(1), of ?e IR_BACKWARD] e by simp
  moreover have "isSmartForward (?s2\<lparr>lastIRSignalTime := millis_rx ?e\<rparr>)"
    using s2(1) by simp
  ultimately have "\<not> isSmartForward (loop ?e ?s2) \<and> \<not> buzzer (loop ?e ?s2)
      \<and> motor (loop ?e ?s2) = BACKWARD"
    using manual_override [of "?s2\<lparr>lastIRSignalTime := millis_rx ?e\<rparr>"] by simp
  with s2 e show ?thesis
    by simp
qed

section \<open>The avoidance cycle\<close>

text \<open>
  C4. \<open>pulseIn\<close> returns 0 when no echo arrives in time. An avoidance cycle that gets
  this reading leaves the buzzer pin low and the motor pins in the forward pattern; it
  never calls \<open>turnRight\<close> (the line that function prints is not among what the cycle
  prints, and the last thing printed is the line of \<open>moveForward\<close>); \<open>isAvoiding\<close>
  is cleared and the mode is untouched.
\<close>

theorem sensor_timeout_fail_open:
  assumes "pulse e = 0"
  shows "\<not> buzzer (checkObstacle e s)
       \<and> motor (checkObstacle e s) = FORWARD
       \<and> Println ''Turning RIGHT'' \<notin> set (printed_since s (checkObstacle e s))
       \<and> last (serial (checkObstacle e s)) = Println ''Moving FORWARD''
       \<and> \<not> isAvoiding (checkObstacle e s)
       \<and> isSmartForward (checkObstacle e s) = isSmartForward s"
proof -
  have d: "\<not> (0 < fst (getDistance e s) \<and> fst (getDistance e s) < OBSTACLE_THRESHOLD)"
    using assms by (simp add: getDistance_timeout)
  show ?thesis
    by (simp add: checkObstacle_clear [OF d] printed_since_def)
qed

theorem sensor_timeout_fail_open_witness:
  "pulse (pass None 800 0) = 0
 \<and> buzzer (checkObstacle (pass None 400 900) (toggleSmartMode (setup_car power_on)))
 \<and> \<not> buzzer (checkObstacle (pass None 800 0)
       (checkObstacle (pass None 400 900) (toggleSmartMode (setup_car power_on))))
 \<and> motor (checkObstacle (pass None 800 0)
       (checkObstacle (pass None 400 900) (toggleSmartMode (setup_car power_on)))) = FORWARD
 \<and> \<not> isAvoiding (checkObstacle (pass None 800 0)
       (checkObstacle (pass None 400 900) (toggleSmartMode (setup_car power_on))))"
proof -
  let ?s = "checkObstacle (pass None 400 900) (toggleSmartMode (setup_car power_on))"
  have p: "pulse (pass None 800 0) = 0"
    by simp
  have "buzzer ?s"
    by (simp add: checkObstacle_outcome distance_examples OBSTACLE_THRESHOLD_def)
  with p sensor_timeout_fail_open [OF p, of ?s] show ?thesis
    by simp
qed

text \<open>
  C5. A cycle whose distance reading is exactly 20 leaves the buzzer pin low and drives
  forward; a reading of 19 sets the buzzer pin high and turns right. In general the
  buzzer is on after a cycle exactly when the reading is above 0 and strictly below 20,
  and the motor pins show the right-turn pattern in that case and the forward pattern
  otherwise.
\<close>

theorem threshold_boundary:
  "(fst (getDistance e s) = 20 \<longrightarrow>
      \<not> buzzer (checkObstacle e s) \<and> motor (checkObstacle e s) = FORWARD)
 \<and> (fst (getDistance e s) = 19 \<longrightarrow>
      buzzer (checkObstacle e s) \<and> motor (checkObstacle e s) = RIGHT)
 \<and> (buzzer (checkObstacle e s) \<longleftrightarrow> 0 < fst (getDistance e s) \<and> fst (getDistance e s) < 20)
 \<and> (motor (checkObstacle e s) =
      (if 0 < fst (getDistance e s) \<and> fst (getDistance e s) < 20 then RIGHT else FORWARD))"
proof (cases "0 < fst (getDistance e s) \<and> fst (getDistance e s) < OBSTACLE_THRESHOLD")
  case True
  then show ?thesis
    using checkObstacle_obstacle(5,6) [of e s] by (simp add: OBSTACLE_THRESHOLD_def)
next
  case False
  then show ?thesis
    using checkObstacle_clear(5,6) [OF False] by (auto simp add: OBSTACLE_THRESHOLD_def)
qed

theorem threshold_boundary_witness:
  "fst (getDistance (pass None 400 1177) (toggleSmartMode (setup_car power_on))) = 20
 \<and> \<not> buzzer (checkObstacle (pass None 400 1177) (toggleSmartMode (setup_car power_on)))
 \<and> motor (checkObstacle (pass None 400 1177) (toggleSmartMode (setup_car power_on))) = FORWARD
 \<and> fst (getDistance (pass None 400 1160) (toggleSmartMode (setup_car power_on))) = 19
 \<and> buzzer (checkObstacle (pass None 400 1160) (toggleSmartMode (setup_car power_on)))
 \<and> motor (checkObstacle (pass None 400 1160) (toggleSmartMode (setup_car power_on))) = RIGHT"
  using threshold_boundary [of "pass None 400 1177" "toggleSmartMode (setup_car power_on)"]
    threshold_boundary [of "pass None 400 1160" "toggleSmartMode (setup_car power_on)"]
  by (simp add: distance_examples)

text \<open>
  C9. With no echo \<open>pulseIn\<close> returns 0, and \<open>getDistance\<close> turns that into a distance
  of 0. The guard of the cycle asks for a distance above 0, so every reading of 0, also
  one that comes from a real echo shorter than a centimetre's worth of travel, takes the
  clear branch: buzzer pin low, forward pattern, \<open>isAvoiding\<close> cleared.
\<close>

theorem zero_reading_is_clear:
  "(pulse e = 0 \<longrightarrow> fst (getDistance e s) = 0)
 \<and> (fst (getDistance e s) = 0 \<longrightarrow>
      \<not> buzzer (checkObstacle e s) \<and> motor (checkObstacle e s) = FORWARD
      \<and> \<not> isAvoiding (checkObstacle e s))"
proof -
  have "\<not> buzzer (checkObstacle e s) \<and> motor (checkObstacle e s) = FORWARD
      \<and> \<not> isAvoiding (checkObstacle e s)" if "fst (getDistance e s) = 0"
  proof -
    have d: "\<not> (0 < fst (getDistance e s) \<and> fst (getDistance e s) < OBSTACLE_THRESHOLD)"
      using that by simp
    show ?thesis by (simp add: checkObstacle_clear [OF d])
  qed
  then show ?thesis by (simp add: getDistance_timeout)
qed

theorem zero_reading_is_clear_witness:
  "pulse (pass None 400 0) = 0
 \<and> fst (getDistance (pass None 400 0) (toggleSmartMode (setup_car power_on))) = 0
 \<and> pulse (pass None 400 30) \<noteq> 0
 \<and> fst (getDistance (pass None 400 30) (toggleSmartMode (setup_car power_on))) = 0
 \<and> \<not> buzzer (checkObstacle (pass None 400 30) (toggleSmartMode (setup_car power_on)))
 \<and> motor (checkObstacle (pass None 400 30) (toggleSmartMode (setup_car power_on))) = FORWARD"
  using zero_reading_is_clear [of "pass None 400 0" "toggleSmartMode (setup_car power_on)"]
    zero_reading_is_clear [of "pass None 400 30" "toggleSmartMode (setup_car power_on)"]
  by (simp add: distance_examples)

section \<open>The cadence of the avoidance cycle\<close>

text \<open>
  C6, as stated, fails: in smart mode with the last cycle timed at 0, a pass that reads
  the clock at exactly 300 does not run the cycle and changes nothing, although the
  sensor would have reported an obstacle at 15 cm.
\<close>

theorem cycle_at_exact_interval_counterexample:
  "isSmartForward (loop (pass (Some IR_SMART_FWD) 0 0) (setup_car power_on))
 \<and> millis_chk (pass None 300 900)
      - lastObstacleCheck (loop (pass (Some IR_SMART_FWD) 0 0) (setup_car power_on))
     = obstacleCheckInterval
 \<and> loop (pass None 300 900) (loop (pass (Some IR_SMART_FWD) 0 0) (setup_car power_on))
     = loop (pass (Some IR_SMART_FWD) 0 0) (setup_car power_on)
 \<and> cycles (loop (pass None 300 900) (loop (pass (Some IR_SMART_FWD) 0 0) (setup_car power_on)))
     = cycles (loop (pass (Some IR_SMART_FWD) 0 0) (setup_car power_on))"
proof -
  let ?s = "loop (pass (Some IR_SMART_FWD) 0 0) (setup_car power_on)"
  have s: "isSmartForward ?s" "lastObstacleCheck ?s = 0"
    by (simp_all add: loop_def Let_def handle_toggle obstacleCheckInterval_def)
  have "loop (pass None 300 900) ?s = ?s"
    using s by (simp add: loop_silent_smart obstacleCheckInterval_def)
  with s show ?thesis
    by (simp add: obstacleCheckInterval_def)
qed

text \<open>
  C6, amended. A pass of the loop runs the avoidance cycle exactly when the mode is
  smart once the pass has handled its command and the clock reading exceeds
  \<open>lastObstacleCheck\<close> by strictly more than 300 (unsigned 32-bit difference); a pass
  at which exactly 300 has elapsed does not run it. A cycle that runs records the time
  in \<open>lastObstacleCheck\<close>, and nothing else changes that variable, so the clock reading
  that starts a cycle is always more than 300 past the time the previous cycle recorded.
  In particular a pass in smart mode without a decoded frame is the cycle if more than
  300 has elapsed, and changes nothing otherwise.
\<close>

theorem avoidance_cadence:
  "cycles (loop e s) =
     (if isSmartForward (loop e s) \<and> obstacleCheckInterval < millis_chk e - lastObstacleCheck s
      then cycles s + 1 else cycles s)
 \<and> lastObstacleCheck (loop e s) =
     (if isSmartForward (loop e s) \<and> obstacleCheckInterval < millis_chk e - lastObstacleCheck s
      then millis_obs e else lastObstacleCheck s)
 \<and> (isSmartForward s \<and> decode e = None \<longrightarrow>
      loop e s = (if 300 < millis_chk e - lastObstacleCheck s then checkObstacle e s else s))"
  by (cases "decode e") (simp_all add: loop_def Let_def obstacleCheckInterval_def)

theorem avoidance_cadence_witness:
  "isSmartForward (toggleSmartMode (setup_car power_on))
 \<and> decode (pass None 301 900) = None
 \<and> (300 :: 32 word) < millis_chk (pass None 301 900)
      - lastObstacleCheck (toggleSmartMode (setup_car power_on))
 \<and> loop (pass None 301 900) (toggleSmartMode (setup_car power_on))
     = checkObstacle (pass None 301 900) (toggleSmartMode (setup_car power_on))
 \<and> cycles (loop (pass None 301 900) (toggleSmartMode (setup_car power_on)))
     = cycles (toggleSmartMode (setup_car power_on)) + 1
 \<and> lastObstacleCheck (loop (pass None 301 900) (toggleSmartMode (setup_car power_on))) = 301
 \<and> decode (pass None 300 900) = None
 \<and> loop (pass None 300 900) (toggleSmartMode (setup_car power_on))
     = toggleSmartMode (setup_car power_on)"
  using avoidance_cadence [of "pass None 301 900" "toggleSmartMode (setup_car power_on)"]
    avoidance_cadence [of "pass None 300 900" "toggleSmartMode (setup_car power_on)"]
  by (simp add: loop_mode obstacleCheckInterval_def)

section \<open>Toggling smart mode\<close>

lemma loop_toggle_on:
  "\<not> isSmartForward s \<Longrightarrow> decode e = Some IR_SMART_FWD \<Longrightarrow> isSmartForward (loop e s)"
  by (simp add: loop_mode handle_toggle)

lemma loop_toggle_off:
  assumes "isSmartForward s" and "decode e = Some IR_SMART_FWD"
  shows "\<not> isSmartForward (loop e s) \<and> motor (loop e s) = STOP \<and> \<not> buzzer (loop e s)"
  using assms by (simp add: loop_def Let_def handle_toggle)

text \<open>
  C7. Handling the toggle command always negates \<open>isSmartForward\<close> and leaves
  \<open>isAvoiding\<close> alone. Starting in manual mode, two toggle commands handled one after
  the other leave the car in manual mode with the motor pins in the stop pattern and the
  buzzer pin low. The same holds for the loop: from manual mode, a pass that decodes the
  toggle, then any number of passes that decode nothing (avoidance cycles may run in
  them), then a pass that decodes the toggle again end in manual mode, stopped, buzzer
  off; in between the car is in smart mode.
\<close>

theorem toggle_round_trip:
  "isSmartForward (handleIRCommand IR_SMART_FWD s) = (\<not> isSmartForward s)
 \<and> isAvoiding (handleIRCommand IR_SMART_FWD s) = isAvoiding s
 \<and> (\<not> isSmartForward s \<longrightarrow>
      \<not> isSmartForward (handleIRCommand IR_SMART_FWD (handleIRCommand IR_SMART_FWD s))
      \<and> motor (handleIRCommand IR_SMART_FWD (handleIRCommand IR_SMART_FWD s)) = STOP
      \<and> \<not> buzzer (handleIRCommand IR_SMART_FWD (handleIRCommand IR_SMART_FWD s)))
 \<and> (\<not> isSmartForward s \<and> decode e1 = Some IR_SMART_FWD \<and> decode e2 = Some IR_SMART_FWD
      \<and> (\<forall>e\<in>set es. decode e = None) \<longrightarrow>
      isSmartForward (run (e1 # es) s)
      \<and> \<not> isSmartForward (run (e1 # es @ [e2]) s)
      \<and> motor (run (e1 # es @ [e2]) s) = STOP
      \<and> \<not> buzzer (run (e1 # es @ [e2]) s))"
proof -
  have a: "isSmartForward (handleIRCommand IR_SMART_FWD s) = (\<not> isSmartForward s)"
    and b: "isAvoiding (handleIRCommand IR_SMART_FWD s) = isAvoiding s"
    by (simp_all add: handle_toggle)
  have c: "\<not> isSmartForward (handleIRCommand IR_SMART_FWD (handleIRCommand IR_SMART_FWD s))
      \<and> motor (handleIRCommand IR_SMART_FWD (handleIRCommand IR_SMART_FWD s)) = STOP
      \<and> \<not> buzzer (handleIRCommand IR_SMART_FWD (handleIRCommand IR_SMART_FWD s))"
    if "\<not> isSmartForward s"
    using that by (simp add: handle_toggle)
  have d: "isSmartForward (run (e1 # es) s)
      \<and> \<not> isSmartForward (run (e1 # es @ [e2]) s)
      \<and> motor (run (e1 # es @ [e2]) s) = STOP
      \<and> \<not> buzzer (run (e1 # es @ [e2]) s)"
    if m: "\<not> isSmartForward s" and e1: "decode e1 = Some IR_SMART_FWD"
      and e2: "decode e2 = Some IR_SMART_FWD" and q: "\<forall>e\<in>set es. decode e = None"
  proof -
    have "isSmartForward (loop e1 s)"
      using m e1 by (rule loop_toggle_on)
    then have on: "isSmartForward (run es (loop e1 s))"
      using q by (simp add: run_silent_mode)
    have "run (e1 # es @ [e2]) s = loop e2 (run es (loop e1 s))"
      by (simp add: run_append)
    then show ?thesis
      using on loop_toggle_off [OF on e2] by simp
  qed
  show ?thesis
    using a b c d by blast
qed

theorem toggle_round_trip_witness:
  "\<not> isSmartForward (setup_car power_on)
 \<and> isSmartForward (handleIRCommand IR_SMART_FWD (setup_car power_on))
 \<and> \<not> isSmartForward (handleIRCommand IR_SMART_FWD (handleIRCommand IR_SMART_FWD (setup_car power_on)))
 \<and> decode (pass (Some IR_SMART_FWD) 100 0) = Some IR_SMART_FWD
 \<and> decode (pass None 500 900) = None
 \<and> decode (pass (Some IR_SMART_FWD) 600 0) = Some IR_SMART_FWD
 \<and> isSmartForward (run [pass (Some IR_SMART_FWD) 100 0, pass None 500 900] (setup_car power_on))
 \<and> buzzer (run [pass (Some IR_SMART_FWD) 100 0, pass None 500 900] (setup_car power_on))
 \<and> \<not> isSmartForward (run [pass (Some IR_SMART_FWD) 100 0, pass None 500 900,
       pass (Some IR_SMART_FWD) 600 0] (setup_car power_on))
 \<and> motor (run [pass (Some IR_SMART_FWD) 100 0, pass None 500 900,
       pass (Some IR_SMART_FWD) 600 0] (setup_car power_on)) = STOP
 \<and> \<not> buzzer (run [pass (Some IR_SMART_FWD) 100 0, pass None 500 900,
       pass (Some IR_SMART_FWD) 600 0] (setup_car power_on))"
proof -
  let ?e1 = "pass (Some IR_SMART_FWD) 100 0"
  let ?e = "pass None 500 900"
  let ?e2 = "pass (Some IR_SMART_FWD) 600 0"
  let ?s0 = "setup_car power_on"
  have s1: "isSmartForward (loop ?e1 ?s0)" "lastObstacleCheck (loop ?e1 ?s0) = 0"
    by (simp_all add: loop_def Let_def handle_toggle obstacleCheckInterval_def)
  have "loop ?e (loop ?e1 ?s0) = checkObstacle ?e (loop ?e1 ?s0)"
    using s1 by (simp add: loop_silent_smart obstacleCheckInterval_def)
  then have b: "buzzer (run [?e1, ?e] ?s0)"
    by (simp add: checkObstacle_outcome distance_examples OBSTACLE_THRESHOLD_def)
  have h: "\<not> isSmartForward ?s0 \<and> decode ?e1 = Some IR_SMART_FWD \<and> decode ?e2 = Some IR_SMART_FWD
      \<and> (\<forall>e\<in>set [?e]. decode e = None)"
    by simp
  from toggle_round_trip [of ?s0 ?e1 ?e2 "[?e]"] h b show ?thesis
    by simp
qed

section \<open>The buzzer in manual mode\<close>

lemma handleIRCommand_quiet:
  "\<not> isSmartForward s \<longrightarrow> \<not> buzzer s \<Longrightarrow>
   \<not> isSmartForward (handleIRCommand c s) \<longrightarrow> \<not> buzzer (handleIRCommand c s)"
  by (auto simp add: handleIRCommand_def Let_def)

lemma loop_quiet:
  assumes "\<not> isSmartForward s \<longrightarrow> \<not> buzzer s"
  shows "\<not> isSmartForward (loop e s) \<longrightarrow> \<not> buzzer (loop e s)"
proof (cases "decode e")
  case None
  then show ?thesis
    using assms by (simp add: loop_def Let_def)
next
  case (Some c)
  have "\<not> isSmartForward (s\<lparr>lastIRSignalTime := millis_rx e\<rparr>)
        \<longrightarrow> \<not> buzzer (s\<lparr>lastIRSignalTime := millis_rx e\<rparr>)"
    using assms by simp
  from handleIRCommand_quiet [OF this, of c] show ?thesis
    using Some by (simp add: loop_def Let_def)
qed

text \<open>
  C8. In every state the sketch can be in between two passes of the loop, starting from
  the state \<open>setup()\<close> leaves behind, the buzzer pin is low whenever the mode is manual.
\<close>

theorem manual_implies_buzzer_off:
  "reachable s \<Longrightarrow> \<not> isSmartForward s \<longrightarrow> \<not> buzzer s"
proof (induction rule: reachable.induct)
  case start
  show ?case by simp
next
  case (step s e)
  then show ?case by (intro loop_quiet)
qed

theorem manual_implies_buzzer_off_witness:
  "reachable (run [pass (Some IR_SMART_FWD) 0 0, pass None 400 900,
                   pass (Some IR_BACKWARD) 500 0] (setup_car power_on))
 \<and> \<not> isSmartForward (run [pass (Some IR_SMART_FWD) 0 0, pass None 400 900,
                   pass (Some IR_BACKWARD) 500 0] (setup_car power_on))
 \<and> buzzer (run [pass (Some IR_SMART_FWD) 0 0, pass None 400 900] (setup_car power_on))
 \<and> \<not> buzzer (run [pass (Some IR_SMART_FWD) 0 0, pass None 400 900,
                   pass (Some IR_BACKWARD) 500 0] (setup_car power_on))"
proof -
  let ?s1 = "loop (pass (Some IR_SMART_FWD) 0 0) (setup_car power_on)"
  let ?s2 = "loop (pass None 400 900) ?s1"
  let ?s3 = "loop (pass (Some IR_BACKWARD) 500 0) ?s2"
  have s1: "isSmartForward ?s1" "lastObstacleCheck ?s1 = 0"
    by (simp_all add: loop_def Let_def handle_toggle obstacleCheckInterval_def)
  have "?s2 = checkObstacle (pass None 400 900) ?s1"
    using s1 by (simp add: loop_silent_smart obstacleCheckInterval_def)
  then have s2: "buzzer ?s2"
    by (simp add: checkObstacle_outcome distance_examples OBSTACLE_THRESHOLD_def)
  have m: "\<not> isSmartForward ?s3"
    by (simp add: loop_mode handle_backward)
  have r: "reachable ?s3"
    by (intro reachable.step reachable.start)
  from manual_implies_buzzer_off [OF r] m s2 r show ?thesis
    by simp
qed

section \<open>Unrecognised command codes\<close>

lemma loop_unknown_manual:
  assumes "\<not> isSmartForward s" and "decode e = Some c" and "\<not> known_command c"
    and "millis_wd e - millis_rx e \<le> signalTimeout"
  shows "loop e s = Serial_println_hex c
           (Serial_print ''Received Command: 0x'' (s\<lparr>lastIRSignalTime := millis_rx e\<rparr>))"
  using assms by (simp add: loop_def Let_def handle_unknown not_less [symmetric])

lemma loop_silent_within:
  assumes "\<not> isSmartForward s" and "decode e = None"
    and "millis_wd e - lastIRSignalTime s \<le> signalTimeout"
  shows "loop e s = s"
  using assms by (simp add: loop_silent_manual not_less [symmetric])

lemma run_unknown_manual:
  assumes "\<not> isSmartForward s"
    and "\<forall>e\<in>set es. \<exists>c. decode e = Some c \<and> \<not> known_command c
           \<and> millis_wd e - millis_rx e \<le> signalTimeout"
  shows "\<not> isSmartForward (run es s) \<and> motor (run es s) = motor s \<and> stops (run es s) = stops s
       \<and> buzzer (run es s) = buzzer s \<and> isAvoiding (run es s) = isAvoiding s"
  using assms
proof (induction es arbitrary: s)
  case Nil
  then show ?case by simp
next
  case (Cons e es)
  then obtain c where c: "decode e = Some c" "\<not> known_command c"
      "millis_wd e - millis_rx e \<le> signalTimeout"
    by auto
  let ?s = "Serial_println_hex c
           (Serial_print ''Received Command: 0x'' (s\<lparr>lastIRSignalTime := millis_rx e\<rparr>))"
  have l: "loop e s = ?s"
    using Cons.prems(1) c by (rule loop_unknown_manual)
  have "\<not> isSmartForward ?s"
    using Cons.prems(1) by simp
  from Cons.IH [OF this] Cons.prems(2) show ?case
    by (simp add: l)
qed

lemma run_stream_manual:
  assumes "\<not> isSmartForward s" and "stream_within_timeout es (lastIRSignalTime s)"
  shows "\<not> isSmartForward (run es s) \<and> motor (run es s) = motor s \<and> stops (run es s) = stops s
       \<and> buzzer (run es s) = buzzer s \<and> isAvoiding (run es s) = isAvoiding s"
  using assms
proof (induction es arbitrary: s)
  case Nil
  then show ?case by simp
next
  case (Cons e es)
  show ?case
  proof (cases "decode e")
    case None
    with Cons.prems have w: "millis_wd e - lastIRSignalTime s \<le> signalTimeout"
      and r: "stream_within_timeout es (lastIRSignalTime s)"
      by simp_all
    have "loop e s = s"
      using Cons.prems(1) None w by (rule loop_silent_within)
    with Cons.IH [OF Cons.prems(1) r] show ?thesis
      by simp
  next
    case (Some c)
    with Cons.prems have c: "\<not> known_command c" "millis_wd e - millis_rx e \<le> signalTimeout"
      and r: "stream_within_timeout es (millis_rx e)"
      by simp_all
    let ?s = "Serial_println_hex c
           (Serial_print ''Received Command: 0x'' (s\<lparr>lastIRSignalTime := millis_rx e\<rparr>))"
    have l: "loop e s = ?s"
      using Cons.prems(1) Some c by (rule loop_unknown_manual)
    have m: "\<not> isSmartForward ?s"
      using Cons.prems(1) by simp
    have "stream_within_timeout es (lastIRSignalTime ?s)"
      using r by simp
    from Cons.IH [OF m this] show ?thesis
      by (simp add: l)
  qed
qed

text \<open>
  C10. Handling a frame whose command is none of the five case labels changes nothing
  but the serial output: with the reception time already stored, \<open>lastIRSignalTime\<close>
  is that time, and the mode, \<open>isAvoiding\<close>, the motor pins, the buzzer pin and
  \<open>lastObstacleCheck\<close> are as before. In manual mode a pass that decodes such a frame
  therefore does not call \<open>stopCar\<close>, however long ago the last frame was, provided the
  watchdog reads the clock no more than 200 ms after the reception was timed; and over
  any stretch of such passes the motor pins, the mode, the buzzer and \<open>isAvoiding\<close>
  stay as they were and \<open>stopCar\<close> is never called. The same holds for a stream of
  such frames with passes in between that decode nothing, as long as the watchdog of
  every pass reads the clock no more than 200 ms after the latest reception (or, before
  the first frame, after the \<open>lastIRSignalTime\<close> the stretch starts with): the
  watchdog never stops the car.
\<close>

theorem unknown_code_rearms_watchdog:
  "(\<not> known_command c \<longrightarrow>
      lastIRSignalTime (handleIRCommand c (s\<lparr>lastIRSignalTime := t\<rparr>)) = t
      \<and> isSmartForward (handleIRCommand c (s\<lparr>lastIRSignalTime := t\<rparr>)) = isSmartForward s
      \<and> isAvoiding (handleIRCommand c (s\<lparr>lastIRSignalTime := t\<rparr>)) = isAvoiding s
      \<and> motor (handleIRCommand c (s\<lparr>lastIRSignalTime := t\<rparr>)) = motor s
      \<and> buzzer (handleIRCommand c (s\<lparr>lastIRSignalTime := t\<rparr>)) = buzzer s
      \<and> lastObstacleCheck (handleIRCommand c (s\<lparr>lastIRSignalTime := t\<rparr>)) = lastObstacleCheck s)
 \<and> (\<not> isSmartForward s \<and> decode e = Some c \<and> \<not> known_command c
      \<and> millis_wd e - millis_rx e \<le> signalTimeout \<longrightarrow>
      lastIRSignalTime (loop e s) = millis_rx e \<and> motor (loop e s) = motor s
      \<and> stops (loop e s) = stops s)
 \<and> (\<not> isSmartForward s
      \<and> (\<forall>e\<in>set es. \<exists>c. decode e = Some c \<and> \<not> known_command c
             \<and> millis_wd e - millis_rx e \<le> signalTimeout) \<longrightarrow>
      \<not> isSmartForward (run es s) \<and> motor (run es s) = motor s \<and> stops (run es s) = stops s
      \<and> buzzer (run es s) = buzzer s \<and> isAvoiding (run es s) = isAvoiding s)
 \<and> (\<not> isSmartForward s \<and> stream_within_timeout es' (lastIRSignalTime s) \<longrightarrow>
      \<not> isSmartForward (run es' s) \<and> motor (run es' s) = motor s
      \<and> stops (run es' s) = stops s
      \<and> buzzer (run es' s) = buzzer s \<and> isAvoiding (run es' s) = isAvoiding s)"
proof -
  have a: "lastIRSignalTime (handleIRCommand c (s\<lparr>lastIRSignalTime := t\<rparr>)) = t
      \<and> isSmartForward (handleIRCommand c (s\<lparr>lastIRSignalTime := t\<rparr>)) = isSmartForward s
      \<and> isAvoiding (handleIRCommand c (s\<lparr>lastIRSignalTime := t\<rparr>)) = isAvoiding s
      \<and> motor (handleIRCommand c (s\<lparr>lastIRSignalTime := t\<rparr>)) = motor s
      \<and> buzzer (handleIRCommand c (s\<lparr>lastIRSignalTime := t\<rparr>)) = buzzer s
      \<and> lastObstacleCheck (handleIRCommand c (s\<lparr>lastIRSignalTime := t\<rparr>)) = lastObstacleCheck s"
    if "\<not> known_command c"
    using that by (simp add: handle_unknown)
  have b: "lastIRSignalTime (loop e s) = millis_rx e \<and> motor (loop e s) = motor s
      \<and> stops (loop e s) = stops s"
    if "\<not> isSmartForward s" "decode e = Some c" "\<not> known_command c"
      "millis_wd e - millis_rx e \<le> signalTimeout"
    using that by (simp add: loop_unknown_manual)
  show ?thesis
    using a b run_unknown_manual [of s es] run_stream_manual [of s es'] by blast
qed

theorem unknown_code_rearms_watchdog_witness:
  "\<not> known_command 0x1234
 \<and> \<not> isSmartForward (loop (pass (Some IR_FORWARD) 1000 0) (setup_car power_on))
 \<and> motor (loop (pass (Some IR_FORWARD) 1000 0) (setup_car power_on)) = FORWARD
 \<and> decode (pass (Some 0x1234) 5000 0) = Some 0x1234
 \<and> millis_wd (pass (Some 0x1234) 5000 0) - millis_rx (pass (Some 0x1234) 5000 0) \<le> signalTimeout
 \<and> signalTimeout < millis_wd (pass (Some 0x1234) 5000 0)
       - lastIRSignalTime (loop (pass (Some IR_FORWARD) 1000 0) (setup_car power_on))
 \<and> lastIRSignalTime (loop (pass (Some 0x1234) 5000 0)
       (loop (pass (Some IR_FORWARD) 1000 0) (setup_car power_on))) = 5000
 \<and> motor (loop (pass (Some 0x1234) 5000 0)
       (loop (pass (Some IR_FORWARD) 1000 0) (setup_car power_on))) = FORWARD
 \<and> motor (run [pass (Some 0x1234) 5000 0, pass (Some 0x1234) 9000 0]
       (loop (pass (Some IR_FORWARD) 1000 0) (setup_car power_on))) = FORWARD
 \<and> motor (loop (pass None 5000 0)
       (loop (pass (Some IR_FORWARD) 1000 0) (setup_car power_on))) = STOP
 \<and> stream_within_timeout
       [pass None 1100 0, pass (Some 0x1234) 1150 0, pass None 1300 0,
        pass (Some 0x1234) 1340 0, pass None 1500 0]
       (lastIRSignalTime (loop (pass (Some IR_FORWARD) 1000 0) (setup_car power_on)))
 \<and> motor (run [pass None 1100 0, pass (Some 0x1234) 1150 0, pass None 1300 0,
               pass (Some 0x1234) 1340 0, pass None 1500 0]
       (loop (pass (Some IR_FORWARD) 1000 0) (setup_car power_on))) = FORWARD
 \<and> stops (run [pass None 1100 0, pass (Some 0x1234) 1150 0, pass None 1300 0,
               pass (Some 0x1234) 1340 0, pass None 1500 0]
       (loop (pass (Some IR_FORWARD) 1000 0) (setup_car power_on)))
     = stops (loop (pass (Some IR_FORWARD) 1000 0) (setup_car power_on))
 \<and> motor (run [pass None 1100 0, pass None 1300 0, pass None 1500 0]
       (loop (pass (Some IR_FORWARD) 1000 0) (setup_car power_on))) = STOP
 \<and> motor (run [pass (Some 0x1234) 5000 0, pass None 8000 0, pass (Some 0x1234) 9000 0]
       (loop (pass (Some IR_FORWARD) 1000 0) (setup_car power_on))) = STOP"
proof -
  let ?s = "loop (pass (Some IR_FORWARD) 1000 0) (setup_car power_on)"
  let ?e = "pass (Some 0x1234) 5000 0"
  let ?e' = "pass (Some 0x1234) 9000 0"
  let ?es = "[pass None 1100 0, pass (Some 0x1234) 1150 0, pass None 1300 0,
              pass (Some 0x1234) 1340 0, pass None 1500 0]"
  have k: "\<not> known_command 0x1234"
    by (simp add: known_command_def ir_defs)
  have s: "\<not> isSmartForward ?s" "motor ?s = FORWARD" "lastIRSignalTime ?s = 1000"
    by (simp_all add: loop_def Let_def handle_forward signalTimeout_def)
  have t: "signalTimeout < millis_wd ?e - lastIRSignalTime ?s"
    by (simp add: s signalTimeout_def)
  have w: "motor (loop (pass None 5000 0) ?s) = STOP"
    using s by (simp add: loop_silent_manual signalTimeout_def)
  have h: "\<forall>e\<in>set [?e, ?e']. \<exists>c. decode e = Some c \<and> \<not> known_command c
             \<and> millis_wd e - millis_rx e \<le> signalTimeout"
    using k by simp
  have g: "stream_within_timeout ?es (lastIRSignalTime ?s)"
    using k by (simp add: s signalTimeout_def)
  have q1: "loop (pass None 1100 0) ?s = ?s"
    using s by (simp add: loop_silent_manual signalTimeout_def)
  have q2: "loop (pass None 1300 0) ?s = stopCar ?s"
    using s by (simp add: loop_silent_manual signalTimeout_def)
  have q3: "motor (loop (pass None 1500 0) (stopCar ?s)) = STOP"
    using s by (simp add: loop_silent_manual signalTimeout_def)
  have q: "motor (run [pass None 1100 0, pass None 1300 0, pass None 1500 0] ?s) = STOP"
    by (simp add: q1 q2 q3)
  let ?s1 = "Serial_println_hex 0x1234
           (Serial_print ''Received Command: 0x'' (?s\<lparr>lastIRSignalTime := 5000\<rparr>))"
  have p1: "loop ?e ?s = ?s1"
    using loop_unknown_manual [OF s(1) _ k, of ?e] by simp
  have p2: "loop (pass None 8000 0) ?s1 = stopCar ?s1"
    using s by (simp add: loop_silent_manual signalTimeout_def)
  have p3: "motor (loop ?e' (stopCar ?s1)) = STOP"
    using s loop_unknown_manual [OF _ _ k, of "stopCar ?s1" ?e'] by simp
  have p: "motor (run [?e, pass None 8000 0, ?e'] ?s) = STOP"
    by (simp add: p1 p2 p3)
  from unknown_code_rearms_watchdog
         [where c = "0x1234" and s = ?s and e = ?e and es = "[?e, ?e']" and es' = ?es]
    k s h g
  have "lastIRSignalTime (loop ?e ?s) = 5000 \<and> motor (loop ?e ?s) = FORWARD
      \<and> motor (run [?e, ?e'] ?s) = FORWARD
      \<and> motor (run ?es ?s) = FORWARD \<and> stops (run ?es ?s) = stops ?s"
    by simp
  with k s t w g q p show ?thesis
    by simp
qed

end
